theory Spec2Isabelle
  imports Main "HOL-Library.Word"
begin

unbundle bit_operations_syntax

section \<open>Data model\<close>

text \<open>
  Go strings are byte sequences: \<open>string\<close>. A UUID is the array \<open>[16]byte\<close> of
  github.com/google/uuid, a list of sixteen bytes; \<open>Nil\<close> is its zero value.
\<close>

type_synonym byte = "8 word"
type_synonym UUID = "byte list"

definition Nil_UUID :: UUID where
  "Nil_UUID = replicate 16 0"

text \<open>
  A timestamp field of the entity: \<open>Unset\<close> is the Go zero value of the field, the value
  a composite literal that does not mention the field leaves in it.
\<close>

datatype timestamp = Unset | At int

text \<open>
  \<open>entity.User\<close>. The declaration (domain/entity/user_entity.go) is not among the
  sources; the fields are those the sources use (ID, Email, HashedPassword) and the
  two timestamps the architecture notes name.
\<close>

record User =
  ID :: UUID
  Email :: string
  HashedPassword :: string
  CreatedAt :: timestamp
  UpdatedAt :: timestamp

text \<open>The zero value of the struct: what \<open>&entity.User{}\<close> holds before any field is set.\<close>

definition zero_User :: User where
  "zero_User = \<lparr>ID = Nil_UUID, Email = [], HashedPassword = [],
                 CreatedAt = Unset, UpdatedAt = Unset\<rparr>"

text \<open>
  \<open>dto.SignUpRequestDto\<close> (sign_up.go), fields named by their JSON tags. The transport
  request \<open>auth.SignUpRequest\<close> and the domain input \<open>dto.SignUpInput\<close> have the same two
  fields; the handler copies one into the other field by field.
\<close>

record SignUpRequestDto =
  email :: string
  password :: string

type_synonym SignUpRequest = SignUpRequestDto
type_synonym SignUpInput = SignUpRequestDto

text \<open>
  Errors are values. \<open>ErrPasswordTooLong\<close> and \<open>InvalidCostError\<close> are bcrypt's;
  \<open>FieldError tag\<close> is the validator's error for a variable that failed the rule
  \<open>tag\<close>; \<open>DomainValidationError\<close> is the failure of the entity's own rule;
  \<open>DecodeError\<close> is a failure of \<open>request.FromJSON\<close>; \<open>PersistenceError\<close> is whatever a
  repository adapter may return.
\<close>

datatype error =
    ErrPasswordTooLong
  | InvalidCostError int
  | FieldError string
  | DomainValidationError
  | DecodeError string
  | PersistenceError string

section \<open>What the program takes from its libraries\<close>

text \<open>
  Four library operations are used through their contracts only and stay parameters of
  the model: the validator's rule \<open>email\<close> (a regular expression), the rune count behind
  its rule \<open>min\<close> on strings (\<open>utf8.RuneCountInString\<close>), \<open>strings.ToLower\<close> (Unicode case
  tables), and the part of a bcrypt hash that follows its prefix (the encoded salt and the
  Blowfish digest, a function of the salt, the password and the cost).
\<close>

record lib =
  is_email :: "string \<Rightarrow> bool"
  RuneCountInString :: "string \<Rightarrow> nat"
  ToLower :: "string \<Rightarrow> string"
  bcrypt_digest :: "byte list \<Rightarrow> string \<Rightarrow> int \<Rightarrow> string"

text \<open>
  The world outside the pure code: the bytes \<open>crypto/rand\<close> will deliver (\<open>rand w i\<close> is
  the \<open>i\<close>-th byte of the stream, \<open>pos w\<close> how many have been read), and the log of the
  entities handed to the repository's \<open>Create\<close>, in call order. The log is written at the
  call site only, as a call-counting stub adapter would record it.
\<close>

record world =
  rand :: "nat \<Rightarrow> byte"
  pos :: nat
  created :: "User list"

text \<open>\<open>io.ReadFull(rand.Reader, buf)\<close> for a buffer of \<open>n\<close> bytes. From Go 1.24 on
  (go.mod asks for 1.25.4) reading \<open>crypto/rand\<close> returns no error.\<close>

fun rand_bytes :: "(nat \<Rightarrow> byte) \<Rightarrow> nat \<Rightarrow> nat \<Rightarrow> byte list" where
  "rand_bytes f p 0 = []"
| "rand_bytes f p (Suc n) = f p # rand_bytes f (Suc p) n"

definition ReadFull :: "world \<Rightarrow> nat \<Rightarrow> byte list \<times> world" where
  "ReadFull w n = (rand_bytes (rand w) (pos w) n, w\<lparr>pos := pos w + n\<rparr>)"

subsection \<open>github.com/google/uuid\<close>

text \<open>
  \<open>uuid.New()\<close> is \<open>Must(NewRandom())\<close>: sixteen random bytes with the version (4) and
  variant (10) bits set.
  \<^verbatim>\<open>
  uuid[6] = (uuid[6] & 0x0f) | 0x40 // Version 4
  uuid[8] = (uuid[8] & 0x3f) | 0x80 // Variant is 10
  \<close>
\<close>

definition set_version :: "byte list \<Rightarrow> UUID" where
  "set_version b = b[6 := (b ! 6 AND 0x0f) OR 0x40, 8 := (b ! 8 AND 0x3f) OR 0x80]"

definition uuid_New :: "world \<Rightarrow> UUID \<times> world" where
  "uuid_New w = (case ReadFull w 16 of (b, w') \<Rightarrow> (set_version b, w'))"

subsection \<open>golang.org/x/crypto/bcrypt\<close>

definition MinCost :: int where "MinCost = 4"
definition MaxCost :: int where "MaxCost = 31"
definition DefaultCost :: int where "DefaultCost = 10"

text \<open>The two decimal digits of a cost (\<open>%02d\<close>); costs are between 4 and 31.\<close>

definition digit :: "int \<Rightarrow> char" where
  "digit d = char_of (48 + d)"

definition cost_digits :: "int \<Rightarrow> string" where
  "cost_digits c = [digit (c div 10), digit (c mod 10)]"

text \<open>
  \<open>bcrypt.GenerateFromPassword(password, cost)\<close>: a password of more than 72 bytes is
  refused; a cost below \<open>MinCost\<close> becomes \<open>DefaultCost\<close>, one above \<open>MaxCost\<close> is refused;
  then sixteen bytes of salt are read and the hash is \<open>$2a$\<close>, the cost, \<open>$\<close>, and the
  encoded salt and digest. The empty password is hashed like any other (the key gets a
  trailing NUL before the cipher is set up).
\<close>

definition GenerateFromPassword ::
  "lib \<Rightarrow> world \<Rightarrow> string \<Rightarrow> int \<Rightarrow> (error + string) \<times> world" where
  "GenerateFromPassword l w pw cost =
     (if length pw > 72 then (Inl ErrPasswordTooLong, w)
      else let c = (if cost < MinCost then DefaultCost else cost) in
        if c > MaxCost then (Inl (InvalidCostError c), w)
        else (case ReadFull w 16 of (salt, w') \<Rightarrow>
                (Inr (''$2a$'' @ cost_digits c @ ''$'' @ bcrypt_digest l salt pw c), w')))"

subsection \<open>github.com/go-playground/validator\<close>

text \<open>
  \<open>validate.Var(s, "required,email")\<close> and \<open>validate.Var(s, "required,min=5")\<close>: the rules
  run left to right and the first that fails is the error. \<open>required\<close> fails on the empty
  string; \<open>min=5\<close> on a string counts runes.
\<close>

definition Var_required_email :: "lib \<Rightarrow> string \<Rightarrow> error option" where
  "Var_required_email l s =
     (if s = [] then Some (FieldError ''required'')
      else if is_email l s then None
      else Some (FieldError ''email''))"

definition Var_required_min5 :: "lib \<Rightarrow> string \<Rightarrow> error option" where
  "Var_required_min5 l s =
     (if s = [] then Some (FieldError ''required'')
      else if RuneCountInString l s < 5 then Some (FieldError ''min'')
      else None)"

section \<open>Domain\<close>

text \<open>
  Modelled from the spec: \<open>entity.User.Validate\<close> (domain/entity/user_entity.go is not
  among the sources). The spec's rule: a non-empty, email-shaped \<open>email\<close> and a non-empty
  \<open>hashedPassword\<close>; a failure is the spec's \<open>DomainValidationError\<close>.
\<close>

definition User_Validate :: "lib \<Rightarrow> User \<Rightarrow> error option" where
  "User_Validate l u =
     (if Email u = [] then Some DomainValidationError
      else if is_email l (Email u) then
        (if HashedPassword u = [] then Some DomainValidationError else None)
      else Some DomainValidationError)"

text \<open>\<open>SignUpRequestDto.Validate\<close> (sign_up.go): the email first, then the password.\<close>

definition SignUpRequestDto_Validate :: "lib \<Rightarrow> SignUpRequestDto \<Rightarrow> error option" where
  "SignUpRequestDto_Validate l req =
     (case Var_required_email l (email req) of
        Some errs \<Rightarrow> Some errs
      | None \<Rightarrow>
         (case Var_required_min5 l (password req) of
            Some errs \<Rightarrow> Some errs
          | None \<Rightarrow> None))"

text \<open>
  Modelled from the spec: \<open>auth.SignUpRequest.Validate\<close> of the transport request
  (internal/api/auth is not among the sources). The spec's rule: \<open>email\<close> present and
  syntactically an email, \<open>password\<close> present and at least 5 characters; these are the
  rules \<open>SignUpRequestDto.Validate\<close> applies.
\<close>

definition SignUpRequest_Validate :: "lib \<Rightarrow> SignUpRequest \<Rightarrow> error option" where
  "SignUpRequest_Validate l req =
     (case Var_required_email l (email req) of
        Some errs \<Rightarrow> Some errs
      | None \<Rightarrow> Var_required_min5 l (password req))"

section \<open>Repository\<close>

text \<open>
  \<open>contract.UserRepository\<close>: one operation, \<open>Create(ctx, u) (*entity.User, error)\<close>. An
  adapter is a function of the world and the candidate.
\<close>

type_synonym UserRepository = "world \<Rightarrow> User \<Rightarrow> (error + User) \<times> world"

text \<open>
  The in-memory adapter's \<open>Create\<close> (user_repository.go): a new entity from \<open>uuid.New()\<close>,
  the lowercased email and the candidate's hashed password; the error is always nil.
\<close>

definition Create :: "lib \<Rightarrow> UserRepository" where
  "Create l w du =
     (case uuid_New w of (newid, w') \<Rightarrow>
        (Inr (zero_User\<lparr>ID := newid,
                        Email := ToLower l (Email du),
                        HashedPassword := HashedPassword du\<rparr>), w'))"

text \<open>
  A call \<open>uc.userRepo.Create(ctx, du)\<close> through the interface: the adapter runs, and the
  call is recorded in the world's log.
\<close>

definition call_Create :: "UserRepository \<Rightarrow> world \<Rightarrow> User \<Rightarrow> (error + User) \<times> world" where
  "call_Create userRepo w du =
     (case userRepo w du of (r, w') \<Rightarrow> (r, w'\<lparr>created := created w @ [du]\<rparr>))"

section \<open>Sign-up use case\<close>

text \<open>The entity \<open>Execute\<close> builds: \<open>&entity.User{Email: ..., HashedPassword: ...}\<close>.\<close>

definition new_User :: "string \<Rightarrow> string \<Rightarrow> User" where
  "new_User e h = zero_User\<lparr>Email := e, HashedPassword := h\<rparr>"

text \<open>\<open>SignUpUseCase.Execute\<close>, the variant on \<open>contract.UserRepository\<close> and
  \<open>dto.SignUpInput\<close> (sign_up.go, second file).\<close>

definition Execute :: "lib \<Rightarrow> UserRepository \<Rightarrow> world \<Rightarrow> SignUpInput \<Rightarrow> (error + User) \<times> world" where
  "Execute l userRepo w input =
     (case GenerateFromPassword l w (password input) DefaultCost of
        (Inl err, w1) \<Rightarrow> (Inl err, w1)
      | (Inr hashed, w1) \<Rightarrow>
          (case User_Validate l (new_User (email input) hashed) of
             Some err \<Rightarrow> (Inl err, w1)
           | None \<Rightarrow>
              (case call_Create userRepo w1 (new_User (email input) hashed) of
                 (Inl err, w2) \<Rightarrow> (Inl err, w2)
               | (Inr newUser, w2) \<Rightarrow> (Inr newUser, w2))))"

text \<open>\<open>SignUpUseCase.Execute\<close>, the variant on \<open>dto.SignUpRequestDto\<close> (sign_up.go, first
  file): the request validates itself first.\<close>

definition Execute_dto :: "lib \<Rightarrow> UserRepository \<Rightarrow> world \<Rightarrow> SignUpRequestDto \<Rightarrow> (error + User) \<times> world" where
  "Execute_dto l userRepo w req =
     (case SignUpRequestDto_Validate l req of
        Some err \<Rightarrow> (Inl err, w)
      | None \<Rightarrow>
         (case GenerateFromPassword l w (password req) DefaultCost of
            (Inl err, w1) \<Rightarrow> (Inl err, w1)
          | (Inr hashed, w1) \<Rightarrow>
              (case User_Validate l (new_User (email req) hashed) of
                 Some err \<Rightarrow> (Inl err, w1)
               | None \<Rightarrow>
                  (case call_Create userRepo w1 (new_User (email req) hashed) of
                     (Inl err, w2) \<Rightarrow> (Inl err, w2)
                   | (Inr newUser, w2) \<Rightarrow> (Inr newUser, w2)))))"

section \<open>Transport\<close>

text \<open>
  A request as the handlers see it: method, path, and \<open>decoded\<close>, the outcome of
  \<open>request.FromJSON\<close> on its body (pkg/http/request is not among the sources; the
  decoding itself, with its size limit and its rejection of unknown fields, is outside
  the model). A response is the status and the value given to \<open>request.ToJSON\<close>:
  \<open>ErrorJSON e\<close> stands for \<open>map[string]string{"error": e.Error()}\<close>, \<open>UserJSON u\<close> for
  the entity, \<open>Raw s\<close> for bytes written as they are.
\<close>

record request =
  Method :: string
  Path :: string
  decoded :: "error + SignUpRequest"

datatype body = ErrorJSON error | UserJSON User | Raw string

record response =
  status :: nat
  body :: body

definition StatusOK :: nat where "StatusOK = 200"
definition StatusCreated :: nat where "StatusCreated = 201"
definition StatusBadRequest :: nat where "StatusBadRequest = 400"
definition StatusNotFound :: nat where "StatusNotFound = 404"
definition StatusMethodNotAllowed :: nat where "StatusMethodNotAllowed = 405"

text \<open>The call \<open>request.ToJSON(w, v, status)\<close>, kept as the status and the value it is
  given.\<close>

definition ToJSON :: "body \<Rightarrow> nat \<Rightarrow> response" where
  "ToJSON v st = \<lparr>status = st, body = v\<rparr>"

text \<open>\<open>AuthHandler.SignUp\<close> of handlers/auth (routes.go, second file).\<close>

definition SignUp :: "lib \<Rightarrow> UserRepository \<Rightarrow> world \<Rightarrow> request \<Rightarrow> response \<times> world" where
  "SignUp l userRepo w r =
     (case decoded r of
        Inl err \<Rightarrow> (ToJSON (ErrorJSON err) StatusBadRequest, w)
      | Inr payload \<Rightarrow>
         (case SignUpRequest_Validate l payload of
            Some err \<Rightarrow> (ToJSON (ErrorJSON err) StatusBadRequest, w)
          | None \<Rightarrow>
             (case Execute l userRepo w \<lparr>email = email payload, password = password payload\<rparr> of
                (Inl err, w') \<Rightarrow> (ToJSON (ErrorJSON err) StatusBadRequest, w')
              | (Inr user, w') \<Rightarrow> (ToJSON (UserJSON user) StatusCreated, w'))))"

text \<open>\<open>AuthHandler.SignUp\<close> of module_route/auth (handler.go).\<close>

definition SignUp_module_route :: "lib \<Rightarrow> UserRepository \<Rightarrow> world \<Rightarrow> request \<Rightarrow> response \<times> world" where
  "SignUp_module_route l userRepo w r =
     (case decoded r of
        Inl err \<Rightarrow> (ToJSON (ErrorJSON err) StatusBadRequest, w)
      | Inr payload \<Rightarrow>
         (case Execute_dto l userRepo w payload of
            (Inl err, w') \<Rightarrow> (ToJSON (ErrorJSON err) StatusBadRequest, w')
          | (Inr user, w') \<Rightarrow> (ToJSON (UserJSON user) StatusCreated, w')))"

text \<open>
  \<open>NewRouter\<close> (router package) with the handler it is given: \<open>GET /health\<close> writes
  \<open>ok\<close> (a first \<open>Write\<close> without \<open>WriteHeader\<close> sends status 200), \<open>POST
  /api/v1/auth/sign-up\<close> goes to the handler's \<open>SignUp\<close>; a known path with another method
  is chi's 405, any other path its 404. The four middlewares (request id, real IP,
  logger, recoverer) pass the response through.
\<close>

definition NewRouter ::
  "(world \<Rightarrow> request \<Rightarrow> response \<times> world) \<Rightarrow> world \<Rightarrow> request \<Rightarrow> response \<times> world" where
  "NewRouter AuthHandler w r =
     (if Path r = ''/health'' then
        (if Method r = ''GET'' then (\<lparr>status = StatusOK, body = Raw ''ok''\<rparr>, w)
         else (\<lparr>status = StatusMethodNotAllowed, body = Raw []\<rparr>, w))
      else if Path r = ''/api/v1/auth/sign-up'' then
        (if Method r = ''POST'' then AuthHandler w r
         else (\<lparr>status = StatusMethodNotAllowed, body = Raw []\<rparr>, w))
      else (\<lparr>status = StatusNotFound, body = Raw (''404 page not found'' @ [CHR 0x0A])\<rparr>, w))"

section \<open>Server lifecycle\<close>

text \<open>
  Errors of the HTTP server: \<open>http.ErrServerClosed\<close>, an error of the listener (bind or
  accept), \<open>context.DeadlineExceeded\<close>, and \<open>Errorf m e\<close> for
  \<open>fmt.Errorf(m + ": %w", e)\<close>, which wraps \<open>e\<close>. \<open>errors.Is\<close> looks through the wrapping.
\<close>

datatype server_error =
    ErrServerClosed
  | ListenError string
  | DeadlineExceeded
  | Errorf string server_error

fun errors_Is :: "server_error \<Rightarrow> server_error \<Rightarrow> bool" where
  "errors_Is (Errorf m e) target = (if Errorf m e = target then True else errors_Is e target)"
| "errors_Is e target = (e = target)"

text \<open>\<open>time.Second\<close>: a \<open>time.Duration\<close> counts nanoseconds.\<close>

definition Second :: int where
  "Second = 1000000000"

text \<open>
  \<open>StartRestAPI\<close> (wire.go, second file). The goroutine runs \<open>ListenAndServe\<close> and puts its
  error on \<open>errCh\<close> unless it is \<open>ErrServerClosed\<close>. The main path waits in a \<open>select\<close>;
  which case fires is an input of the model: \<open>CtxDone\<close> when the cancellation signal
  arrives first, \<open>ErrCh err\<close> when \<open>err\<close> is received from \<open>errCh\<close> first. The other input
  is \<open>server.Shutdown\<close>, a function of the time its context allows: nil when the server
  has shut down within it, an error otherwise.
\<close>

datatype select_case = CtxDone | ErrCh server_error

definition listener_goroutine :: "server_error \<Rightarrow> server_error option" where
  "listener_goroutine err = (if errors_Is err ErrServerClosed then None else Some err)"

definition StartRestAPI :: "(int \<Rightarrow> server_error option) \<Rightarrow> select_case \<Rightarrow> server_error option" where
  "StartRestAPI Shutdown sel =
     (case sel of
        CtxDone \<Rightarrow>
          (case Shutdown (10 * Second) of
             Some err \<Rightarrow> Some (Errorf ''server shutdown'' err)
           | None \<Rightarrow> None)
      | ErrCh err \<Rightarrow> Some err)"

section \<open>Concrete instances for evaluation\<close>

text \<open>
  An instance of the library operations that is right on the ASCII strings of the
  examples below: an address is taken to be email-shaped when it has an \<open>@\<close>, a rune is a
  byte, lowercasing maps \<open>A\<close>..\<open>Z\<close> to \<open>a\<close>..\<open>z\<close>, and the digest is a fixed text.
\<close>

definition ascii_lower :: "char \<Rightarrow> char" where
  "ascii_lower c =
     (if 65 \<le> (of_char c :: nat) then
        (if (of_char c :: nat) \<le> 90 then char_of ((of_char c :: nat) + 32) else c)
      else c)"

definition ascii_lib :: lib where
  "ascii_lib = \<lparr>is_email = (\<lambda>s. CHR ''@'' \<in> set s),
                 RuneCountInString = length,
                 ToLower = map ascii_lower,
                 bcrypt_digest = (\<lambda>salt pw c. ''saltsaltsaltsaltsaltsadigestdigestdigestdigestdigest'')\<rparr>"

text \<open>A world whose random source delivers zero bytes only, nothing read, nothing created.\<close>

definition zero_world :: world where
  "zero_world = \<lparr>rand = (\<lambda>i. 0), pos = 0, created = []\<rparr>"

text \<open>A world whose random source counts: byte \<open>i\<close> is \<open>i\<close> (modulo 256).\<close>

definition counting_world :: world where
  "counting_world = \<lparr>rand = (\<lambda>i. of_nat i), pos = 0, created = []\<rparr>"

text \<open>An adapter whose store rejects every write.\<close>

definition failing_repo :: UserRepository where
  "failing_repo w du = (Inl (PersistenceError ''rejected''), w)"

text \<open>Requests for the examples: a four-character password, a body that does not decode,
  and a well-formed sign-up; the hash and the entity the latter yields in \<open>zero_world\<close>.\<close>

definition short_request :: request where
  "short_request = \<lparr>Method = ''POST'', Path = ''/api/v1/auth/sign-up'',
                      decoded = Inr \<lparr>email = ''a@b.co'', password = ''abcd''\<rparr>\<rparr>"

definition bad_json_request :: request where
  "bad_json_request = \<lparr>Method = ''POST'', Path = ''/api/v1/auth/sign-up'',
                         decoded = Inl (DecodeError ''unexpected EOF'')\<rparr>"

definition good_request :: request where
  "good_request = \<lparr>Method = ''POST'', Path = ''/api/v1/auth/sign-up'',
                     decoded = Inr \<lparr>email = ''a@B.co'', password = ''abcde''\<rparr>\<rparr>"

definition example_hash :: string where
  "example_hash = ''$2a$10$saltsaltsaltsaltsaltsadigestdigestdigestdigestdigest''"

definition example_User :: User where
  "example_User = \<lparr>ID = [0, 0, 0, 0, 0, 0, 0x40, 0, 0x80, 0, 0, 0, 0, 0, 0, 0],
                     Email = ''a@b.co'', HashedPassword = example_hash,
                     CreatedAt = Unset, UpdatedAt = Unset\<rparr>"

text \<open>A server whose in-flight requests need \<open>need\<close> nanoseconds: \<open>Shutdown\<close> returns nil
  when its context allows that long, \<open>context.DeadlineExceeded\<close> otherwise.\<close>

definition patient_Shutdown :: "int \<Rightarrow> int \<Rightarrow> server_error option" where
  "patient_Shutdown need d = (if need \<le> d then None else Some DeadlineExceeded)"

section \<open>Properties\<close>

subsection \<open>Hashing and the call log\<close>

lemma digit_char: "digit 1 = CHR ''1''" "digit 0 = CHR ''0''"
  by (simp_all add: digit_def char_of_def)

lemma ReadFull_created: "created (snd (ReadFull w n)) = created w"
  by (simp add: ReadFull_def)

lemma GenerateFromPassword_created:
  "created (snd (GenerateFromPassword l w pw c)) = created w"
  by (simp add: GenerateFromPassword_def ReadFull_def Let_def)

lemma GenerateFromPassword_Inl:
  "GenerateFromPassword l w pw c = (Inl e, w1) \<Longrightarrow> w1 = w"
  by (auto simp: GenerateFromPassword_def ReadFull_def Let_def split: if_splits)

lemma GenerateFromPassword_Inr:
  "GenerateFromPassword l w pw c = (Inr h, w1) \<Longrightarrow> h \<noteq> [] \<and> w1 = w\<lparr>pos := pos w + 16\<rparr>"
  by (auto simp: GenerateFromPassword_def ReadFull_def Let_def split: if_splits)

lemma GenerateFromPassword_DefaultCost:
  "GenerateFromPassword l w pw DefaultCost =
     (if length pw > 72 then (Inl ErrPasswordTooLong, w)
      else (Inr (''$2a$10$'' @ bcrypt_digest l (rand_bytes (rand w) (pos w) 16) pw 10),
            w\<lparr>pos := pos w + 16\<rparr>))"
  by (simp add: GenerateFromPassword_def ReadFull_def Let_def DefaultCost_def MinCost_def
      MaxCost_def cost_digits_def digit_char)

lemma call_Create_created:
  "created (snd (call_Create userRepo w du)) = created w @ [du]"
  by (simp add: call_Create_def split: prod.splits)

lemma Execute_created:
  "created (snd (Execute l userRepo w input)) = created w \<or>
   (\<exists>h. User_Validate l (new_User (email input) h) = None \<and>
      created (snd (Execute l userRepo w input)) = created w @ [new_User (email input) h])"
proof (cases "GenerateFromPassword l w (password input) DefaultCost")
  case (Pair r w1)
  have c1: "created w1 = created w"
    using GenerateFromPassword_created [of l w "password input" DefaultCost] Pair by simp
  show ?thesis
  proof (cases r)
    case (Inl e)
    with Pair c1 show ?thesis by (simp add: Execute_def)
  next
    case (Inr h)
    show ?thesis
    proof (cases "User_Validate l (new_User (email input) h)")
      case None
      have "created (snd (Execute l userRepo w input)) = created w @ [new_User (email input) h]"
        using Pair Inr None c1 call_Create_created [of userRepo w1 "new_User (email input) h"]
        by (cases "call_Create userRepo w1 (new_User (email input) h)")
           (auto simp: Execute_def split: sum.splits)
      with None show ?thesis by blast
    next
      case (Some e)
      with Pair Inr c1 show ?thesis by (simp add: Execute_def)
    qed
  qed
qed


lemma Execute_dto_created:
  "created (snd (Execute_dto l userRepo w req)) = created w \<or>
   (\<exists>h. User_Validate l (new_User (email req) h) = None \<and>
      created (snd (Execute_dto l userRepo w req)) = created w @ [new_User (email req) h])"
proof (cases "SignUpRequestDto_Validate l req")
  case (Some e)
  then show ?thesis by (simp add: Execute_dto_def)
next
  case None
  then have "Execute_dto l userRepo w req = Execute l userRepo w req"
    by (simp add: Execute_dto_def Execute_def)
  then show ?thesis using Execute_created [of l userRepo w req] by simp
qed

lemma Execute_invalid_entity:
  assumes "GenerateFromPassword l w (password input) DefaultCost = (Inr hashed, w1)"
    and "User_Validate l (new_User (email input) hashed) = Some err"
  shows "Execute l userRepo w input = (Inl err, w1) \<and> created w1 = created w"
  using assms GenerateFromPassword_created [of l w "password input" DefaultCost]
  by (simp add: Execute_def)

text \<open>
  Claim C1. Whatever the input and the adapter, \<open>Execute\<close> (either variant) hands at most
  one entity to the repository's \<open>Create\<close>, and that entity passes \<open>User.Validate\<close>; and
  when the entity built from the input's email and the hash fails \<open>Validate\<close>, \<open>Execute\<close>
  returns that very error and the log of \<open>Create\<close> calls is as it was.
\<close>

theorem Execute_validates_before_Create:
  "(created (snd (Execute l userRepo w input)) = created w \<or>
    (\<exists>du. User_Validate l du = None \<and>
       created (snd (Execute l userRepo w input)) = created w @ [du]))
   \<and> (created (snd (Execute_dto l userRepo w input)) = created w \<or>
    (\<exists>du. User_Validate l du = None \<and>
       created (snd (Execute_dto l userRepo w input)) = created w @ [du]))
   \<and> (\<forall>hashed w1 err.
        GenerateFromPassword l w (password input) DefaultCost = (Inr hashed, w1) \<longrightarrow>
        User_Validate l (new_User (email input) hashed) = Some err \<longrightarrow>
        Execute l userRepo w input = (Inl err, w1) \<and> created w1 = created w)"
proof (intro conjI allI impI)
  show "created (snd (Execute l userRepo w input)) = created w \<or>
    (\<exists>du. User_Validate l du = None \<and>
       created (snd (Execute l userRepo w input)) = created w @ [du])"
    using Execute_created [of l userRepo w input] by blast
next
  show "created (snd (Execute_dto l userRepo w input)) = created w \<or>
    (\<exists>du. User_Validate l du = None \<and>
       created (snd (Execute_dto l userRepo w input)) = created w @ [du])"
    using Execute_dto_created [of l userRepo w input] by blast
next
  fix hashed w1 err
  assume "GenerateFromPassword l w (password input) DefaultCost = (Inr hashed, w1)"
    and "User_Validate l (new_User (email input) hashed) = Some err"
  then show "Execute l userRepo w input = (Inl err, w1)" "created w1 = created w"
    using Execute_invalid_entity by blast+
qed

lemmas ev = ascii_lib_def zero_world_def GenerateFromPassword_DefaultCost User_Validate_def new_User_def
  zero_User_def

text \<open>An address without \<open>@\<close>: the hash succeeds, the entity is refused, nothing is created.\<close>

theorem Execute_validates_before_Create_witness:
  "GenerateFromPassword ascii_lib zero_world ''secret'' DefaultCost =
     (Inr ''$2a$10$saltsaltsaltsaltsaltsadigestdigestdigestdigestdigest'', zero_world\<lparr>pos := 16\<rparr>)
   \<and> User_Validate ascii_lib
        (new_User ''not-an-email'' ''$2a$10$saltsaltsaltsaltsaltsadigestdigestdigestdigestdigest'')
       = Some DomainValidationError
   \<and> Execute ascii_lib (Create ascii_lib) zero_world
        \<lparr>email = ''not-an-email'', password = ''secret''\<rparr>
       = (Inl DomainValidationError, zero_world\<lparr>pos := 16\<rparr>)
   \<and> created (zero_world\<lparr>pos := 16\<rparr>) = created zero_world"
proof -
  have g: "GenerateFromPassword ascii_lib zero_world
             (password \<lparr>email = ''not-an-email'', password = ''secret''\<rparr>) DefaultCost =
     (Inr ''$2a$10$saltsaltsaltsaltsaltsadigestdigestdigestdigestdigest'', zero_world\<lparr>pos := 16\<rparr>)"
    by (simp add: ev)
  have v: "User_Validate ascii_lib
        (new_User (email \<lparr>email = ''not-an-email'', password = ''secret''\<rparr>)
           ''$2a$10$saltsaltsaltsaltsaltsadigestdigestdigestdigestdigest'')
       = Some DomainValidationError"
    by (simp add: ev)
  from Execute_validates_before_Create
    [of ascii_lib "Create ascii_lib" zero_world "\<lparr>email = ''not-an-email'', password = ''secret''\<rparr>"]
  have "Execute ascii_lib (Create ascii_lib) zero_world
        \<lparr>email = ''not-an-email'', password = ''secret''\<rparr>
       = (Inl DomainValidationError, zero_world\<lparr>pos := 16\<rparr>)
     \<and> created (zero_world\<lparr>pos := 16\<rparr>) = created zero_world"
    using g v by blast
  then show ?thesis using g v by simp
qed

subsection \<open>The use case\<close>

text \<open>
  Claim C6. When \<open>bcrypt.GenerateFromPassword\<close> fails, \<open>Execute\<close> returns that error
  itself, unwrapped, with the world as it found it: no \<open>Create\<close> call is logged. The
  request-validating variant does the same once its own validation has passed.
\<close>

theorem Execute_hash_failure:
  "GenerateFromPassword l w (password input) DefaultCost = (Inl err, w1) \<Longrightarrow>
     Execute l userRepo w input = (Inl err, w)
     \<and> created (snd (Execute l userRepo w input)) = created w
     \<and> (SignUpRequestDto_Validate l input = None \<longrightarrow>
          Execute_dto l userRepo w input = (Inl err, w)
          \<and> created (snd (Execute_dto l userRepo w input)) = created w)"
  using GenerateFromPassword_Inl [of l w "password input" DefaultCost err w1]
  by (simp add: Execute_def Execute_dto_def)

text \<open>A password of 73 bytes: bcrypt refuses it and the adapter is never reached.\<close>

theorem Execute_hash_failure_witness:
  "GenerateFromPassword ascii_lib zero_world (replicate 73 CHR ''a'') DefaultCost
     = (Inl ErrPasswordTooLong, zero_world)
   \<and> SignUpRequestDto_Validate ascii_lib \<lparr>email = ''a@b.co'', password = replicate 73 CHR ''a''\<rparr> = None
   \<and> Execute ascii_lib failing_repo zero_world \<lparr>email = ''a@b.co'', password = replicate 73 CHR ''a''\<rparr>
       = (Inl ErrPasswordTooLong, zero_world)
   \<and> Execute_dto ascii_lib failing_repo zero_world \<lparr>email = ''a@b.co'', password = replicate 73 CHR ''a''\<rparr>
       = (Inl ErrPasswordTooLong, zero_world)"
proof -
  have g: "GenerateFromPassword ascii_lib zero_world
        (password \<lparr>email = ''a@b.co'', password = replicate 73 CHR ''a''\<rparr>) DefaultCost
     = (Inl ErrPasswordTooLong, zero_world)"
    by (simp add: GenerateFromPassword_DefaultCost)
  have v: "SignUpRequestDto_Validate ascii_lib \<lparr>email = ''a@b.co'', password = replicate 73 CHR ''a''\<rparr> = None"
    by (simp add: SignUpRequestDto_Validate_def Var_required_email_def Var_required_min5_def ascii_lib_def)
  from Execute_hash_failure [OF g, of failing_repo] v g show ?thesis by simp
qed

subsection \<open>The handlers\<close>

lemma Var_required_min5_short:
  "RuneCountInString l s < 5 \<Longrightarrow> \<exists>e. Var_required_min5 l s = Some e"
  by (simp add: Var_required_min5_def)

lemma SignUpRequest_Validate_short:
  "RuneCountInString l (password p) < 5 \<Longrightarrow> \<exists>e. SignUpRequest_Validate l p = Some e"
  using Var_required_min5_short [of l "password p"]
  by (auto simp: SignUpRequest_Validate_def split: option.splits)

lemma SignUpRequestDto_Validate_short:
  "RuneCountInString l (password p) < 5 \<Longrightarrow> \<exists>e. SignUpRequestDto_Validate l p = Some e"
  using Var_required_min5_short [of l "password p"]
  by (auto simp: SignUpRequestDto_Validate_def split: option.splits)

text \<open>
  Claim C2. A request that decodes to a payload whose password has fewer than five
  characters (runes) is answered with status 400 by either handler, and the log of
  \<open>Create\<close> calls is as it was.
\<close>

theorem short_password_rejected:
  assumes "decoded r = Inr p" and "RuneCountInString l (password p) < 5"
  shows "status (fst (SignUp l userRepo w r)) = 400
     \<and> created (snd (SignUp l userRepo w r)) = created w
     \<and> status (fst (SignUp_module_route l userRepo w r)) = 400
     \<and> created (snd (SignUp_module_route l userRepo w r)) = created w"
proof -
  obtain e where e: "SignUpRequest_Validate l p = Some e"
    using SignUpRequest_Validate_short [OF assms(2)] by blast
  obtain e' where e': "SignUpRequestDto_Validate l p = Some e'"
    using SignUpRequestDto_Validate_short [OF assms(2)] by blast
  show ?thesis
    using assms(1) e e'
    by (simp add: SignUp_def SignUp_module_route_def Execute_dto_def ToJSON_def StatusBadRequest_def)
qed

text \<open>The password \<open>abcd\<close>: 400 from both handlers, nothing created.\<close>

theorem short_password_rejected_witness:
  "decoded short_request = Inr \<lparr>email = ''a@b.co'', password = ''abcd''\<rparr>
   \<and> RuneCountInString ascii_lib (password \<lparr>email = ''a@b.co'', password = ''abcd''\<rparr>) < 5
   \<and> status (fst (SignUp ascii_lib (Create ascii_lib) zero_world short_request)) = 400
   \<and> created (snd (SignUp ascii_lib (Create ascii_lib) zero_world short_request)) = []
   \<and> status (fst (SignUp_module_route ascii_lib (Create ascii_lib) zero_world short_request)) = 400
   \<and> created (snd (SignUp_module_route ascii_lib (Create ascii_lib) zero_world short_request)) = []"
proof -
  have d: "decoded short_request = Inr \<lparr>email = ''a@b.co'', password = ''abcd''\<rparr>"
    by (simp add: short_request_def)
  have n: "RuneCountInString ascii_lib (password \<lparr>email = ''a@b.co'', password = ''abcd''\<rparr>) < 5"
    by (simp add: ascii_lib_def)
  have c: "created zero_world = []"
    by (simp add: zero_world_def)
  from short_password_rejected [OF d n, of "Create ascii_lib" zero_world] d n c
  show ?thesis by simp
qed

lemma SignUpInput_copy: "\<lparr>email = email p, password = password p\<rparr> = (p :: SignUpRequest)"
  by (cases p) simp

lemma SignUp_cases:
  "SignUp l userRepo w r =
     (case decoded r of
        Inl err \<Rightarrow> (\<lparr>status = 400, body = ErrorJSON err\<rparr>, w)
      | Inr p \<Rightarrow>
         (case SignUpRequest_Validate l p of
            Some err \<Rightarrow> (\<lparr>status = 400, body = ErrorJSON err\<rparr>, w)
          | None \<Rightarrow>
             (case fst (Execute l userRepo w p) of
                Inl err \<Rightarrow> (\<lparr>status = 400, body = ErrorJSON err\<rparr>, snd (Execute l userRepo w p))
              | Inr user \<Rightarrow> (\<lparr>status = 201, body = UserJSON user\<rparr>, snd (Execute l userRepo w p)))))"
  by (simp add: SignUp_def ToJSON_def StatusBadRequest_def StatusCreated_def SignUpInput_copy
      split: sum.splits option.splits prod.splits)

lemma SignUp_module_route_cases:
  "SignUp_module_route l userRepo w r =
     (case decoded r of
        Inl err \<Rightarrow> (\<lparr>status = 400, body = ErrorJSON err\<rparr>, w)
      | Inr p \<Rightarrow>
         (case fst (Execute_dto l userRepo w p) of
            Inl err \<Rightarrow> (\<lparr>status = 400, body = ErrorJSON err\<rparr>, snd (Execute_dto l userRepo w p))
          | Inr user \<Rightarrow> (\<lparr>status = 201, body = UserJSON user\<rparr>, snd (Execute_dto l userRepo w p))))"
  by (simp add: SignUp_module_route_def ToJSON_def StatusBadRequest_def StatusCreated_def
      split: sum.splits option.splits prod.splits)

text \<open>
  Claim C5. \<open>SignUp\<close> (either handler) answers a decoding error, a failed request
  validation and an error of \<open>Execute\<close> with status 400 and the body \<open>{"error": message}\<close>
  of that error, answers a success of \<open>Execute\<close> with status 201 and the returned entity
  as body, and produces no status other than 400 and 201.
\<close>

theorem SignUp_outcomes:
  "(\<forall>err. decoded r = Inl err \<longrightarrow>
       fst (SignUp l userRepo w r) = \<lparr>status = 400, body = ErrorJSON err\<rparr>
       \<and> fst (SignUp_module_route l userRepo w r) = \<lparr>status = 400, body = ErrorJSON err\<rparr>)
   \<and> (\<forall>p err. decoded r = Inr p \<longrightarrow> SignUpRequest_Validate l p = Some err \<longrightarrow>
       fst (SignUp l userRepo w r) = \<lparr>status = 400, body = ErrorJSON err\<rparr>)
   \<and> (\<forall>p err. decoded r = Inr p \<longrightarrow> SignUpRequest_Validate l p = None \<longrightarrow>
       fst (Execute l userRepo w \<lparr>email = email p, password = password p\<rparr>) = Inl err \<longrightarrow>
       fst (SignUp l userRepo w r) = \<lparr>status = 400, body = ErrorJSON err\<rparr>)
   \<and> (\<forall>p user. decoded r = Inr p \<longrightarrow> SignUpRequest_Validate l p = None \<longrightarrow>
       fst (Execute l userRepo w \<lparr>email = email p, password = password p\<rparr>) = Inr user \<longrightarrow>
       fst (SignUp l userRepo w r) = \<lparr>status = 201, body = UserJSON user\<rparr>)
   \<and> (\<forall>p err. decoded r = Inr p \<longrightarrow> fst (Execute_dto l userRepo w p) = Inl err \<longrightarrow>
       fst (SignUp_module_route l userRepo w r) = \<lparr>status = 400, body = ErrorJSON err\<rparr>)
   \<and> (\<forall>p user. decoded r = Inr p \<longrightarrow> fst (Execute_dto l userRepo w p) = Inr user \<longrightarrow>
       fst (SignUp_module_route l userRepo w r) = \<lparr>status = 201, body = UserJSON user\<rparr>)
   \<and> status (fst (SignUp l userRepo w r)) \<in> {400, 201}
   \<and> status (fst (SignUp_module_route l userRepo w r)) \<in> {400, 201}"
  by (simp add: SignUp_cases SignUp_module_route_cases SignUpInput_copy
      split: sum.splits option.splits)

lemma rand_bytes_16:
  "rand_bytes f p 16 =
     [f p, f (p + 1), f (p + 2), f (p + 3), f (p + 4), f (p + 5), f (p + 6), f (p + 7),
      f (p + 8), f (p + 9), f (p + 10), f (p + 11), f (p + 12), f (p + 13), f (p + 14),
      f (p + 15)]"
  by (simp add: eval_nat_numeral)

lemma Create_eq:
  "Create l w du =
     (Inr \<lparr>ID = set_version (rand_bytes (rand w) (pos w) 16), Email = ToLower l (Email du),
           HashedPassword = HashedPassword du, CreatedAt = Unset, UpdatedAt = Unset\<rparr>,
      w\<lparr>pos := pos w + 16\<rparr>)"
  by (simp add: Create_def uuid_New_def ReadFull_def zero_User_def)

lemma ascii_lower_simps:
  "ascii_lower CHR ''a'' = CHR ''a''" "ascii_lower CHR ''@'' = CHR ''@''"
  "ascii_lower CHR ''B'' = CHR ''b''" "ascii_lower CHR ''.'' = CHR ''.''"
  "ascii_lower CHR ''c'' = CHR ''c''" "ascii_lower CHR ''o'' = CHR ''o''"
  by (simp_all add: ascii_lower_def char_of_def bit_Suc_0_iff)

lemma Validate_good:
  "SignUpRequest_Validate ascii_lib \<lparr>email = ''a@B.co'', password = ''abcde''\<rparr> = None"
  "SignUpRequestDto_Validate ascii_lib \<lparr>email = ''a@B.co'', password = ''abcde''\<rparr> = None"
  by (simp_all add: SignUpRequest_Validate_def SignUpRequestDto_Validate_def
      Var_required_email_def Var_required_min5_def ascii_lib_def bit_Suc_0_iff)

lemma Execute_good_failing:
  "Execute ascii_lib failing_repo zero_world \<lparr>email = ''a@B.co'', password = ''abcde''\<rparr>
     = (Inl (PersistenceError ''rejected''),
        zero_world\<lparr>pos := 16, created := [new_User ''a@B.co'' example_hash]\<rparr>)"
  by (simp add: Execute_def GenerateFromPassword_DefaultCost User_Validate_def new_User_def
      zero_User_def call_Create_def failing_repo_def ascii_lib_def zero_world_def example_hash_def)

lemma Execute_good_Create:
  "Execute ascii_lib (Create ascii_lib) zero_world \<lparr>email = ''a@B.co'', password = ''abcde''\<rparr>
     = (Inr example_User,
        zero_world\<lparr>pos := 32, created := [new_User ''a@B.co'' example_hash]\<rparr>)"
  by (simp add: Execute_def GenerateFromPassword_DefaultCost User_Validate_def new_User_def
      zero_User_def call_Create_def Create_eq rand_bytes_16 set_version_def ascii_lib_def
      zero_world_def example_hash_def example_User_def ascii_lower_simps)

text \<open>A body that does not decode, an adapter that rejects the write, and a success.\<close>

theorem SignUp_outcomes_witness:
  "decoded bad_json_request = Inl (DecodeError ''unexpected EOF'')
   \<and> fst (SignUp ascii_lib (Create ascii_lib) zero_world bad_json_request)
       = \<lparr>status = 400, body = ErrorJSON (DecodeError ''unexpected EOF'')\<rparr>
   \<and> decoded good_request = Inr \<lparr>email = ''a@B.co'', password = ''abcde''\<rparr>
   \<and> SignUpRequest_Validate ascii_lib \<lparr>email = ''a@B.co'', password = ''abcde''\<rparr> = None
   \<and> fst (Execute ascii_lib failing_repo zero_world \<lparr>email = ''a@B.co'', password = ''abcde''\<rparr>)
       = Inl (PersistenceError ''rejected'')
   \<and> fst (SignUp ascii_lib failing_repo zero_world good_request)
       = \<lparr>status = 400, body = ErrorJSON (PersistenceError ''rejected'')\<rparr>
   \<and> fst (Execute ascii_lib (Create ascii_lib) zero_world \<lparr>email = ''a@B.co'', password = ''abcde''\<rparr>)
       = Inr example_User
   \<and> fst (SignUp ascii_lib (Create ascii_lib) zero_world good_request)
       = \<lparr>status = 201, body = UserJSON example_User\<rparr>"
proof -
  have d1: "decoded bad_json_request = Inl (DecodeError ''unexpected EOF'')"
    by (simp add: bad_json_request_def)
  have d2: "decoded good_request = Inr \<lparr>email = ''a@B.co'', password = ''abcde''\<rparr>"
    by (simp add: good_request_def)
  note v = Validate_good(1)
  have e1: "fst (Execute ascii_lib failing_repo zero_world
                  \<lparr>email = email \<lparr>email = ''a@B.co'', password = ''abcde''\<rparr>,
                     password = password \<lparr>email = ''a@B.co'', password = ''abcde''\<rparr>\<rparr>)
            = Inl (PersistenceError ''rejected'')"
    by (simp add: Execute_good_failing)
  have e2: "fst (Execute ascii_lib (Create ascii_lib) zero_world
                  \<lparr>email = email \<lparr>email = ''a@B.co'', password = ''abcde''\<rparr>,
                     password = password \<lparr>email = ''a@B.co'', password = ''abcde''\<rparr>\<rparr>)
            = Inr example_User"
    by (simp add: Execute_good_Create)
  have a: "fst (SignUp ascii_lib (Create ascii_lib) zero_world bad_json_request)
       = \<lparr>status = 400, body = ErrorJSON (DecodeError ''unexpected EOF'')\<rparr>"
    using SignUp_outcomes [of bad_json_request ascii_lib "Create ascii_lib" zero_world] d1
    by blast
  have b: "fst (SignUp ascii_lib failing_repo zero_world good_request)
       = \<lparr>status = 400, body = ErrorJSON (PersistenceError ''rejected'')\<rparr>"
    using SignUp_outcomes [of good_request ascii_lib failing_repo zero_world] d2 v e1
    by blast
  have c: "fst (SignUp ascii_lib (Create ascii_lib) zero_world good_request)
       = \<lparr>status = 201, body = UserJSON example_User\<rparr>"
    using SignUp_outcomes [of good_request ascii_lib "Create ascii_lib" zero_world] d2 v e2
    by blast
  from a b c d1 d2 v e1 e2 show ?thesis by simp
qed

subsection \<open>The router\<close>

text \<open>
  Claim C7. A \<open>GET\<close> request for \<open>/health\<close> is answered with status 200 and the body
  \<open>ok\<close>, whatever the handler wired in, the state of the world (so whatever came before)
  and the rest of the request; the world is left as it was.
\<close>

theorem health_ok:
  "NewRouter AuthHandler w (r\<lparr>Method := ''GET'', Path := ''/health''\<rparr>)
     = (\<lparr>status = 200, body = Raw ''ok''\<rparr>, w)"
  by (simp add: NewRouter_def StatusOK_def)

subsection \<open>The in-memory adapter\<close>

text \<open>
  Claim C4. \<open>Create\<close> returns an entity whose email is \<open>strings.ToLower\<close> of the
  candidate's and whose hashed password is the candidate's; the candidate's identifier and
  timestamps have no influence on what \<open>Create\<close> returns.
\<close>

theorem Create_normalises:
  "\<exists>u. fst (Create l w du) = Inr u
       \<and> Email u = ToLower l (Email du)
       \<and> HashedPassword u = HashedPassword du
       \<and> Create l w (du\<lparr>ID := i, CreatedAt := c, UpdatedAt := t\<rparr>) = Create l w du"
  by (simp add: Create_eq)

lemma SignUp_201:
  "status (fst (SignUp l userRepo w r)) = 201 \<Longrightarrow>
     \<exists>p u. decoded r = Inr p \<and> fst (Execute l userRepo w p) = Inr u
          \<and> body (fst (SignUp l userRepo w r)) = UserJSON u"
  by (auto simp: SignUp_cases split: sum.splits option.splits)

lemma SignUp_module_route_201:
  "status (fst (SignUp_module_route l userRepo w r)) = 201 \<Longrightarrow>
     \<exists>p u. decoded r = Inr p \<and> fst (Execute_dto l userRepo w p) = Inr u
          \<and> body (fst (SignUp_module_route l userRepo w r)) = UserJSON u"
  by (auto simp: SignUp_module_route_cases split: sum.splits option.splits)

lemma Execute_Create_Inr:
  "fst (Execute l (Create l) w p) = Inr u \<Longrightarrow>
     \<exists>w1 du. Create l w1 du = (Inr u, w1\<lparr>pos := pos w1 + 16\<rparr>)"
  by (auto simp: Execute_def call_Create_def Create_eq split: prod.splits sum.splits option.splits)

lemma Execute_dto_Create_Inr:
  "fst (Execute_dto l (Create l) w p) = Inr u \<Longrightarrow>
     \<exists>w1 du. Create l w1 du = (Inr u, w1\<lparr>pos := pos w1 + 16\<rparr>)"
  by (auto simp: Execute_dto_def call_Create_def Create_eq split: prod.splits sum.splits option.splits)

lemma Create_Inr_timestamps:
  "Create l w du = (Inr u, w') \<Longrightarrow> CreatedAt u = Unset \<and> UpdatedAt u = Unset"
  by (auto simp: Create_eq)

text \<open>
  Claim C9. The entity \<open>Create\<close> returns has both timestamps unset, and so has the
  body of every 201 response either handler writes over the in-memory adapter.
\<close>

theorem Create_timestamps_unset:
  "(\<exists>u. fst (Create l w du) = Inr u \<and> CreatedAt u = Unset \<and> UpdatedAt u = Unset)
   \<and> (status (fst (SignUp l (Create l) w r)) = 201 \<longrightarrow>
        (\<exists>u. body (fst (SignUp l (Create l) w r)) = UserJSON u
            \<and> CreatedAt u = Unset \<and> UpdatedAt u = Unset))
   \<and> (status (fst (SignUp_module_route l (Create l) w r)) = 201 \<longrightarrow>
        (\<exists>u. body (fst (SignUp_module_route l (Create l) w r)) = UserJSON u
            \<and> CreatedAt u = Unset \<and> UpdatedAt u = Unset))"
proof (intro conjI impI)
  show "\<exists>u. fst (Create l w du) = Inr u \<and> CreatedAt u = Unset \<and> UpdatedAt u = Unset"
    by (simp add: Create_eq)
next
  assume "status (fst (SignUp l (Create l) w r)) = 201"
  then obtain p u where u: "fst (Execute l (Create l) w p) = Inr u"
    and b: "body (fst (SignUp l (Create l) w r)) = UserJSON u"
    using SignUp_201 by blast
  from u have "CreatedAt u = Unset \<and> UpdatedAt u = Unset"
    using Execute_Create_Inr Create_Inr_timestamps by blast
  with b show "\<exists>u. body (fst (SignUp l (Create l) w r)) = UserJSON u
            \<and> CreatedAt u = Unset \<and> UpdatedAt u = Unset"
    by blast
next
  assume "status (fst (SignUp_module_route l (Create l) w r)) = 201"
  then obtain p u where u: "fst (Execute_dto l (Create l) w p) = Inr u"
    and b: "body (fst (SignUp_module_route l (Create l) w r)) = UserJSON u"
    using SignUp_module_route_201 by blast
  from u have "CreatedAt u = Unset \<and> UpdatedAt u = Unset"
    using Execute_dto_Create_Inr Create_Inr_timestamps by blast
  with b show "\<exists>u. body (fst (SignUp_module_route l (Create l) w r)) = UserJSON u
            \<and> CreatedAt u = Unset \<and> UpdatedAt u = Unset"
    by blast
qed

lemma Execute_dto_good_Create:
  "Execute_dto ascii_lib (Create ascii_lib) zero_world \<lparr>email = ''a@B.co'', password = ''abcde''\<rparr>
     = (Inr example_User,
        zero_world\<lparr>pos := 32, created := [new_User ''a@B.co'' example_hash]\<rparr>)"
  using Execute_good_Create Validate_good(2)
  by (simp add: Execute_dto_def Execute_def)

lemma SignUp_good:
  "fst (SignUp ascii_lib (Create ascii_lib) zero_world good_request)
     = \<lparr>status = 201, body = UserJSON example_User\<rparr>"
  "fst (SignUp_module_route ascii_lib (Create ascii_lib) zero_world good_request)
     = \<lparr>status = 201, body = UserJSON example_User\<rparr>"
  by (simp_all add: SignUp_cases SignUp_module_route_cases good_request_def Validate_good
      Execute_good_Create Execute_dto_good_Create)

text \<open>A well-formed sign-up: 201 from both handlers, timestamps unset in the body.\<close>

theorem Create_timestamps_unset_witness:
  "status (fst (SignUp ascii_lib (Create ascii_lib) zero_world good_request)) = 201
   \<and> status (fst (SignUp_module_route ascii_lib (Create ascii_lib) zero_world good_request)) = 201
   \<and> body (fst (SignUp ascii_lib (Create ascii_lib) zero_world good_request)) = UserJSON example_User
   \<and> body (fst (SignUp_module_route ascii_lib (Create ascii_lib) zero_world good_request))
       = UserJSON example_User
   \<and> CreatedAt example_User = Unset \<and> UpdatedAt example_User = Unset"
proof -
  have s: "status (fst (SignUp ascii_lib (Create ascii_lib) zero_world good_request)) = 201"
    "status (fst (SignUp_module_route ascii_lib (Create ascii_lib) zero_world good_request)) = 201"
    by (simp_all add: SignUp_good)
  have b: "body (fst (SignUp ascii_lib (Create ascii_lib) zero_world good_request)) = UserJSON example_User"
    "body (fst (SignUp_module_route ascii_lib (Create ascii_lib) zero_world good_request))
       = UserJSON example_User"
    by (simp_all add: SignUp_good)
  from Create_timestamps_unset [of ascii_lib zero_world zero_User good_request] s b
  show ?thesis by simp
qed

lemma set_version_not_Nil:
  assumes "length b = 16"
  shows "set_version b \<noteq> Nil_UUID"
proof
  assume "set_version b = Nil_UUID"
  then have "set_version b ! 6 = Nil_UUID ! 6" by simp
  then have "(b ! 6 AND 0x0f) OR 0x40 = (0 :: byte)"
    using assms by (simp add: set_version_def Nil_UUID_def)
  then have "(0x40 :: byte) = 0"
    by (simp add: or_eq_0_iff)
  then show False by simp
qed

lemma length_rand_bytes: "length (rand_bytes f p n) = n"
  by (induction n arbitrary: p) auto

text \<open>
  Claim C3, amended. \<open>Create\<close> never returns an error, and the identifier of the entity
  it returns is the version-4 UUID made of the next sixteen bytes of the random source: it
  does not depend on the candidate (an identifier the caller supplies is not taken over)
  and is never the nil UUID an unpersisted entity carries. A second call draws the next
  sixteen bytes; nothing compares its identifier with the first.
\<close>

theorem Create_identifier:
  "\<exists>u1 u2. fst (Create l w du) = Inr u1
      \<and> fst (Create l (snd (Create l w du)) du') = Inr u2
      \<and> ID u1 = set_version (rand_bytes (rand w) (pos w) 16)
      \<and> ID u2 = set_version (rand_bytes (rand w) (pos w + 16) 16)
      \<and> ID u1 \<noteq> Nil_UUID
      \<and> fst (Create l w (du\<lparr>ID := i\<rparr>)) = Inr u1"
  using set_version_not_Nil [OF length_rand_bytes [of "rand w" "pos w" 16]]
  by (simp add: Create_eq)

text \<open>Where the random source does not repeat itself the two identifiers differ.\<close>

theorem Create_identifier_witness:
  "fst (Create ascii_lib counting_world zero_User)
     = Inr (zero_User\<lparr>ID := [0, 1, 2, 3, 4, 5, 70, 7, 136, 9, 10, 11, 12, 13, 14, 15]\<rparr>)
   \<and> fst (Create ascii_lib (snd (Create ascii_lib counting_world zero_User)) zero_User)
     = Inr (zero_User\<lparr>ID := [16, 17, 18, 19, 20, 21, 70, 23, 152, 25, 26, 27, 28, 29, 30, 31]\<rparr>)"
  using Create_identifier [of ascii_lib counting_world zero_User zero_User]
  by (simp add: Create_eq rand_bytes_16 set_version_def counting_world_def zero_User_def
      ascii_lib_def)

text \<open>
  Claim C3 as stated fails where the random source repeats itself: in \<open>zero_world\<close> two
  calls in sequence with the same candidate return the same identifier.
\<close>

theorem Create_identifier_repeats:
  "fst (Create ascii_lib zero_world zero_User)
     = Inr (zero_User\<lparr>ID := [0, 0, 0, 0, 0, 0, 0x40, 0, 0x80, 0, 0, 0, 0, 0, 0, 0]\<rparr>)
   \<and> fst (Create ascii_lib (snd (Create ascii_lib zero_world zero_User)) zero_User)
     = Inr (zero_User\<lparr>ID := [0, 0, 0, 0, 0, 0, 0x40, 0, 0x80, 0, 0, 0, 0, 0, 0, 0]\<rparr>)"
  by (simp add: Create_eq rand_bytes_16 set_version_def zero_world_def zero_User_def ascii_lib_def)

text \<open>
  Claim C10, amended. \<open>Execute\<close> on \<open>dto.SignUpInput\<close> has no minimum password length:
  over the in-memory adapter, every input with a non-empty, email-shaped email and a
  password of at most 72 bytes (the empty one included) succeeds, the entity handed to
  \<open>Create\<close> carrying a non-empty hash. A password of more than 72 bytes is refused by
  bcrypt and \<open>Execute\<close> returns \<open>ErrPasswordTooLong\<close>, whatever the adapter, the world
  unchanged. The minimum of five characters is the transport handler's: \<open>SignUp\<close>
  answers a shorter password with 400 and calls no \<open>Create\<close>.
\<close>

theorem Execute_no_minimum_length:
  "(email input \<noteq> [] \<longrightarrow> is_email l (email input) \<longrightarrow> length (password input) \<le> 72 \<longrightarrow>
      (\<exists>u h. Execute l (Create l) w input
            = (Inr u, w\<lparr>pos := pos w + 32, created := created w @ [new_User (email input) h]\<rparr>)
          \<and> h \<noteq> []
          \<and> Email u = ToLower l (email input) \<and> HashedPassword u = h))
   \<and> (72 < length (password input) \<longrightarrow>
        Execute l userRepo w input = (Inl ErrPasswordTooLong, w))
   \<and> (\<forall>p. decoded r = Inr p \<longrightarrow> RuneCountInString l (password p) < 5 \<longrightarrow>
        status (fst (SignUp l userRepo w r)) = 400
        \<and> created (snd (SignUp l userRepo w r)) = created w)"
proof (intro conjI impI allI)
  assume "email input \<noteq> []" "is_email l (email input)" "length (password input) \<le> 72"
  then show "\<exists>u h. Execute l (Create l) w input
            = (Inr u, w\<lparr>pos := pos w + 32, created := created w @ [new_User (email input) h]\<rparr>)
          \<and> h \<noteq> []
          \<and> Email u = ToLower l (email input) \<and> HashedPassword u = h"
    by (simp add: Execute_def GenerateFromPassword_DefaultCost User_Validate_def new_User_def
        zero_User_def call_Create_def Create_eq)
next
  assume "72 < length (password input)"
  then show "Execute l userRepo w input = (Inl ErrPasswordTooLong, w)"
    by (simp add: Execute_def GenerateFromPassword_DefaultCost)
next
  fix p
  assume d: "decoded r = Inr p" and n: "RuneCountInString l (password p) < 5"
  obtain e where e: "SignUpRequest_Validate l p = Some e"
    using SignUpRequest_Validate_short [OF n] by blast
  from d e show "status (fst (SignUp l userRepo w r)) = 400"
    "created (snd (SignUp l userRepo w r)) = created w"
    by (simp_all add: SignUp_cases)
qed

text \<open>The empty password is hashed and the user is created; eighty bytes are refused;
  \<open>abcd\<close> is stopped by the handler.\<close>

theorem Execute_no_minimum_length_witness:
  "email \<lparr>email = ''a@B.co'', password = []\<rparr> \<noteq> []
   \<and> is_email ascii_lib (email \<lparr>email = ''a@B.co'', password = []\<rparr>)
   \<and> length (password \<lparr>email = ''a@B.co'', password = []\<rparr>) \<le> 72
   \<and> (\<exists>u h. Execute ascii_lib (Create ascii_lib) zero_world \<lparr>email = ''a@B.co'', password = []\<rparr>
            = (Inr u, zero_world\<lparr>pos := pos zero_world + 32,
                 created := created zero_world @ [new_User ''a@B.co'' h]\<rparr>)
          \<and> h \<noteq> [] \<and> Email u = ''a@b.co'' \<and> HashedPassword u = h)
   \<and> 72 < length (password \<lparr>email = ''a@B.co'', password = replicate 80 CHR ''x''\<rparr>)
   \<and> Execute ascii_lib failing_repo zero_world
        \<lparr>email = ''a@B.co'', password = replicate 80 CHR ''x''\<rparr>
       = (Inl ErrPasswordTooLong, zero_world)
   \<and> decoded short_request = Inr \<lparr>email = ''a@b.co'', password = ''abcd''\<rparr>
   \<and> RuneCountInString ascii_lib (password \<lparr>email = ''a@b.co'', password = ''abcd''\<rparr>) < 5
   \<and> status (fst (SignUp ascii_lib (Create ascii_lib) zero_world short_request)) = 400
   \<and> created (snd (SignUp ascii_lib (Create ascii_lib) zero_world short_request)) = []"
proof -
  have e: "email \<lparr>email = ''a@B.co'', password = []\<rparr> \<noteq> []" by simp
  have m: "is_email ascii_lib (email \<lparr>email = ''a@B.co'', password = []\<rparr>)"
    by (simp add: ascii_lib_def)
  have n: "length (password \<lparr>email = ''a@B.co'', password = []\<rparr>) \<le> 72" by simp
  have t: "ToLower ascii_lib ''a@B.co'' = ''a@b.co''"
    by (simp add: ascii_lib_def ascii_lower_simps)
  have k: "72 < length (password \<lparr>email = ''a@B.co'', password = replicate 80 CHR ''x''\<rparr>)"
    by simp
  have d: "decoded short_request = Inr \<lparr>email = ''a@b.co'', password = ''abcd''\<rparr>"
    by (simp add: short_request_def)
  have s: "RuneCountInString ascii_lib (password \<lparr>email = ''a@b.co'', password = ''abcd''\<rparr>) < 5"
    by (simp add: ascii_lib_def)
  have c: "created zero_world = []" by (simp add: zero_world_def)
  have 1: "\<exists>u h. Execute ascii_lib (Create ascii_lib) zero_world \<lparr>email = ''a@B.co'', password = []\<rparr>
            = (Inr u, zero_world\<lparr>pos := pos zero_world + 32,
                 created := created zero_world @ [new_User ''a@B.co'' h]\<rparr>)
          \<and> h \<noteq> [] \<and> Email u = ''a@b.co'' \<and> HashedPassword u = h"
    using Execute_no_minimum_length
      [where input = "\<lparr>email = ''a@B.co'', password = []\<rparr>"
         and l = ascii_lib and w = zero_world] e m n t
    by simp
  have 2: "Execute ascii_lib failing_repo zero_world
        \<lparr>email = ''a@B.co'', password = replicate 80 CHR ''x''\<rparr>
       = (Inl ErrPasswordTooLong, zero_world)"
    using Execute_no_minimum_length
      [where input = "\<lparr>email = ''a@B.co'', password = replicate 80 CHR ''x''\<rparr>"
         and l = ascii_lib and w = zero_world and userRepo = failing_repo] k
    by blast
  have 3: "status (fst (SignUp ascii_lib (Create ascii_lib) zero_world short_request)) = 400
     \<and> created (snd (SignUp ascii_lib (Create ascii_lib) zero_world short_request)) = []"
    using Execute_no_minimum_length
      [where l = ascii_lib and w = zero_world and r = short_request
         and userRepo = "Create ascii_lib"] d s c
    by simp
  from e m n k d s 1 2 3 show ?thesis by simp
qed

text \<open>
  Claim C10 as stated fails on a long password: with a valid email and 73 bytes of
  password, \<open>Execute\<close> returns bcrypt's \<open>ErrPasswordTooLong\<close> and nothing is created.
\<close>

theorem Execute_long_password_fails:
  "email \<lparr>email = ''a@b.co'', password = replicate 73 CHR ''a''\<rparr> \<noteq> []
   \<and> is_email ascii_lib (email \<lparr>email = ''a@b.co'', password = replicate 73 CHR ''a''\<rparr>)
   \<and> Execute ascii_lib (Create ascii_lib) zero_world
        \<lparr>email = ''a@b.co'', password = replicate 73 CHR ''a''\<rparr>
       = (Inl ErrPasswordTooLong, zero_world)
   \<and> created zero_world = []"
  by (simp add: Execute_def GenerateFromPassword_DefaultCost ascii_lib_def zero_world_def)

subsection \<open>The server lifecycle\<close>

text \<open>
  Claim C8. When the cancellation signal is what the \<open>select\<close> receives, \<open>StartRestAPI\<close>
  calls \<open>Shutdown\<close> with a deadline of ten seconds, returns nil when \<open>Shutdown\<close> returns
  nil, and returns the error of \<open>Shutdown\<close> wrapped as \<open>server shutdown: ...\<close> otherwise.
  The goroutine never forwards \<open>ErrServerClosed\<close>; any other listener error is forwarded,
  and when it is what the \<open>select\<close> receives, \<open>StartRestAPI\<close> returns it unchanged.
\<close>

theorem StartRestAPI_outcomes:
  "(Shutdown (10 * Second) = None \<longrightarrow> StartRestAPI Shutdown CtxDone = None)
   \<and> (\<forall>err. Shutdown (10 * Second) = Some err \<longrightarrow>
         StartRestAPI Shutdown CtxDone = Some (Errorf ''server shutdown'' err))
   \<and> (\<forall>err. errors_Is err ErrServerClosed \<longrightarrow> listener_goroutine err = None)
   \<and> (\<forall>err. listener_goroutine err = Some err \<longrightarrow>
         StartRestAPI Shutdown (ErrCh err) = Some err)
   \<and> (\<forall>err. (if errors_Is err ErrServerClosed then True
              else listener_goroutine err = Some err
                   \<and> StartRestAPI Shutdown (ErrCh err) = Some err))"
  by (simp add: StartRestAPI_def listener_goroutine_def)

text \<open>A shutdown that needs three seconds, one that needs eleven, and a bind failure.\<close>

theorem StartRestAPI_outcomes_witness:
  "patient_Shutdown (3 * Second) (10 * Second) = None
   \<and> StartRestAPI (patient_Shutdown (3 * Second)) CtxDone = None
   \<and> patient_Shutdown (11 * Second) (10 * Second) = Some DeadlineExceeded
   \<and> StartRestAPI (patient_Shutdown (11 * Second)) CtxDone
       = Some (Errorf ''server shutdown'' DeadlineExceeded)
   \<and> listener_goroutine (ListenError ''address already in use'')
       = Some (ListenError ''address already in use'')
   \<and> StartRestAPI (patient_Shutdown (3 * Second)) (ErrCh (ListenError ''address already in use''))
       = Some (ListenError ''address already in use'')
   \<and> listener_goroutine ErrServerClosed = None"
proof -
  have a: "patient_Shutdown (3 * Second) (10 * Second) = None"
    by (simp add: patient_Shutdown_def Second_def)
  have b: "patient_Shutdown (11 * Second) (10 * Second) = Some DeadlineExceeded"
    by (simp add: patient_Shutdown_def Second_def)
  have c: "listener_goroutine (ListenError ''address already in use'')
       = Some (ListenError ''address already in use'')"
    by (simp add: listener_goroutine_def)
  have d: "listener_goroutine ErrServerClosed = None"
    by (simp add: listener_goroutine_def)
  have 1: "StartRestAPI (patient_Shutdown (3 * Second)) CtxDone = None"
    using StartRestAPI_outcomes [of "patient_Shutdown (3 * Second)"] a by blast
  have 2: "StartRestAPI (patient_Shutdown (11 * Second)) CtxDone
       = Some (Errorf ''server shutdown'' DeadlineExceeded)"
    using StartRestAPI_outcomes [of "patient_Shutdown (11 * Second)"] b by blast
  have 3: "StartRestAPI (patient_Shutdown (3 * Second)) (ErrCh (ListenError ''address already in use''))
       = Some (ListenError ''address already in use'')"
    using StartRestAPI_outcomes [of "patient_Shutdown (3 * Second)"] c by blast
  from a b c d 1 2 3 show ?thesis by simp
qed

end
